theory Spec2Isabelle
  imports Main "HOL-Library.AList"
begin

section \<open>Python values as the connector sees them\<close>

text \<open>
  The connector (\<^verbatim>\<open>tracardi_postgresql_connector/plugin.py\<close>) fetches rows from the
  database driver and turns each row into a JSON-compatible dictionary with
  \<^verbatim>\<open>json.loads(json.dumps(dict(record), default=json_default))\<close>.
  The values in a row are Python objects. They are modelled by the distinctions the
  \<^verbatim>\<open>json\<close> encoder and \<^verbatim>\<open>json_default\<close> make between them.
\<close>

datatype pyerror =
  TypeError | ValueError | AttributeError | TimeoutError | PostgresError | InterfaceError
  | OSError | SyntaxError

text \<open>
  A Python \<^verbatim>\<open>float\<close>: sign, integer mantissa and binary exponent of a finite value,
  or an infinity, or not-a-number. The connector never computes with floats, it only
  moves them.
\<close>

datatype pyfloat = Finite bool nat int | Inf bool | NaN

text \<open>
  \<^verbatim>\<open>decimal.Decimal\<close>, as \<^verbatim>\<open>as_tuple()\<close> shows it: sign, coefficient and exponent
  of a finite value, or one of the special values.
\<close>

datatype decimal = Dec bool nat int | DecInf bool | DecNaN | DecSNaN

text \<open>
  \<^verbatim>\<open>datetime.date\<close> and its subclass \<^verbatim>\<open>datetime.datetime\<close>. The offset is
  \<^verbatim>\<open>utcoffset()\<close> in microseconds, \<open>None\<close> for a naive value.
\<close>

record date =
  year :: nat
  month :: nat
  day :: nat

record datetime = date +
  hour :: nat
  minute :: nat
  second :: nat
  microsecond :: nat
  utcoffset :: "int option"

text \<open>
  Objects the \<^verbatim>\<open>json\<close> encoder cannot serialise by itself, split the way
  \<^verbatim>\<open>json_default\<close> tests them with \<^verbatim>\<open>isinstance\<close>. \<open>Other s\<close> is any other object
  (a time of day, a UUID, bytes, a range, a nested record, ...), known by what
  \<^verbatim>\<open>str(obj)\<close> returns for it.
\<close>

datatype pyobj = Datetime datetime | Date date | Decimal decimal | Other string

text \<open>
  Dictionary keys, split the way the encoder coerces them to member names.
  \<open>KOther\<close> is a hashable key of any other type (a tuple, bytes, a date, ...).
\<close>

datatype pykey = KStr string | KInt int | KFloat pyfloat | KBool bool | KNone | KOther

datatype pyval =
  PNone
  | PBool bool
  | PInt int
  | PFloat pyfloat
  | PStr string
  | PList "pyval list"
  | PTuple "pyval list"
  | PDict "(pykey \<times> pyval) list"
  | PObj pyobj

text \<open>
  A JSON document, as \<^verbatim>\<open>json.dumps\<close> writes it and \<^verbatim>\<open>json.loads\<close> reads it. The
  document is kept as a tree: a number written with a fraction or an exponent (or as
  \<^verbatim>\<open>NaN\<close>, \<^verbatim>\<open>Infinity\<close>) is read back as a float, one written as digits as an int,
  and the shortest-repr text of a float reads back as the same float. An object is the
  sequence of its members in the order written; member names may repeat.
\<close>

datatype json =
  JNull
  | JBool bool
  | JInt int
  | JFloat pyfloat
  | JStr string
  | JArr "json list"
  | JObj "(string \<times> json) list"

text \<open>
  The built-in conversions the serializer calls and whose results it only passes on:
  \<^verbatim>\<open>float(d)\<close> on a \<^verbatim>\<open>Decimal\<close> (it raises \<^verbatim>\<open>ValueError\<close> on a signalling NaN), and the
  text the encoder writes for a float used as a dictionary key.
\<close>

record builtins =
  float_of_decimal :: "decimal \<Rightarrow> pyerror + pyfloat"
  floatstr :: "pyfloat \<Rightarrow> string"

section \<open>Formatting\<close>

definition digit :: "nat \<Rightarrow> char" where
  "digit n = ''0123456789'' ! (n mod 10)"

fun str_nat :: "nat \<Rightarrow> string" where
  "str_nat n = (if n < 10 then [digit n] else str_nat (n div 10) @ [digit n])"

declare str_nat.simps [simp del]

text \<open>\<^verbatim>\<open>int.__repr__\<close>\<close>

definition str_int :: "int \<Rightarrow> string" where
  "str_int i = (if i < 0 then CHR ''-'' # str_nat (nat (- i)) else str_nat (nat i))"

text \<open>\<^verbatim>\<open>"%0wd" % n\<close> for a natural number \<open>n\<close>\<close>

definition zfill :: "nat \<Rightarrow> nat \<Rightarrow> string" where
  "zfill w n = replicate (w - length (str_nat n)) CHR ''0'' @ str_nat n"

text \<open>\<^verbatim>\<open>date.isoformat()\<close>: \<^verbatim>\<open>"%04d-%02d-%02d" % (year, month, day)\<close>\<close>

definition isoformat_date :: "'a date_scheme \<Rightarrow> string" where
  "isoformat_date d = zfill 4 (year d) @ ''-'' @ zfill 2 (month d) @ ''-'' @ zfill 2 (day d)"

text \<open>
  \<^verbatim>\<open>_format_time\<close> with \<^verbatim>\<open>timespec='auto'\<close>: microseconds are written only when they
  are not zero.
\<close>

definition format_time :: "nat \<Rightarrow> nat \<Rightarrow> nat \<Rightarrow> nat \<Rightarrow> string" where
  "format_time hh mm ss us =
     zfill 2 hh @ '':'' @ zfill 2 mm @ '':'' @ zfill 2 ss @
     (if us \<noteq> 0 then ''.'' @ zfill 6 us else [])"

text \<open>\<^verbatim>\<open>_format_offset\<close>: sign, hours and minutes; seconds and microseconds when present.\<close>

definition format_offset :: "int option \<Rightarrow> string" where
  "format_offset off =
     (case off of
        None \<Rightarrow> []
      | Some u \<Rightarrow>
          (let a = nat \<bar>u\<bar>;
               hh = a div 3600000000;
               r = a mod 3600000000;
               mm = r div 60000000;
               s = r mod 60000000
           in (if u < 0 then ''-'' else ''+'') @ zfill 2 hh @ '':'' @ zfill 2 mm @
              (if s \<noteq> 0
               then '':'' @ zfill 2 (s div 1000000) @
                    (if s mod 1000000 \<noteq> 0 then ''.'' @ zfill 6 (s mod 1000000) else [])
               else [])))"

text \<open>\<^verbatim>\<open>datetime.isoformat()\<close> with the default separator \<^verbatim>\<open>'T'\<close>\<close>

definition isoformat_datetime :: "datetime \<Rightarrow> string" where
  "isoformat_datetime t =
     isoformat_date t @ ''T'' @ format_time (hour t) (minute t) (second t) (microsecond t) @
     format_offset (utcoffset t)"

section \<open>The result serializer\<close>

text \<open>
  \<^verbatim>\<open>json_default\<close>, the hook of \<^verbatim>\<open>to_dict\<close>. The encoder calls it on an object it
  cannot serialise; the tests are in the source's order.
\<close>

fun json_default :: "builtins \<Rightarrow> pyobj \<Rightarrow> pyerror + pyval" where
  "json_default rt (Datetime t) = Inr (PStr (isoformat_datetime t))"
| "json_default rt (Date d) = Inr (PStr (isoformat_date d))"
| "json_default rt (Decimal d) =
     (case float_of_decimal rt d of Inl e \<Rightarrow> Inl e | Inr f \<Rightarrow> Inr (PFloat f))"
| "json_default rt (Other s) = Inr (PStr s)"

text \<open>
  A comprehension \<^verbatim>\<open>[f(x) for x in xs]\<close> over a function that may raise: the first
  exception ends it.
\<close>

fun traverse :: "('a \<Rightarrow> 'e + 'b) \<Rightarrow> 'a list \<Rightarrow> 'e + 'b list" where
  "traverse f [] = Inr []"
| "traverse f (x # xs) =
     (case f x of
        Inl e \<Rightarrow> Inl e
      | Inr y \<Rightarrow> (case traverse f xs of Inl e \<Rightarrow> Inl e | Inr ys \<Rightarrow> Inr (y # ys)))"

lemma traverse_cong [fundef_cong]:
  "xs = ys \<Longrightarrow> (\<And>x. x \<in> set ys \<Longrightarrow> f x = g x) \<Longrightarrow> traverse f xs = traverse g ys"
  by (induction ys arbitrary: xs) (auto split: sum.splits)

text \<open>
  The member name the encoder writes for a dictionary key (\<^verbatim>\<open>skipkeys\<close> is off): a key
  that is not a string, a number, a boolean or \<^verbatim>\<open>None\<close> raises \<^verbatim>\<open>TypeError\<close>. The hook
  is not consulted for keys.
\<close>

fun key_str :: "builtins \<Rightarrow> pykey \<Rightarrow> pyerror + string" where
  "key_str rt (KStr s) = Inr s"
| "key_str rt (KFloat f) = Inr (floatstr rt f)"
| "key_str rt (KBool True) = Inr ''true''"
| "key_str rt (KBool False) = Inr ''false''"
| "key_str rt KNone = Inr ''null''"
| "key_str rt (KInt i) = Inr (str_int i)"
| "key_str rt KOther = Inl TypeError"

text \<open>
  The measure under which the encoder terminates: the containers count their elements,
  an object the hook is called on counts one, and what the hook returns counts nothing.
\<close>

fun rank :: "pyval \<Rightarrow> nat" where
  "rank (PList xs) = Suc (sum_list (map rank xs))"
| "rank (PTuple xs) = Suc (sum_list (map rank xs))"
| "rank (PDict kvs) = Suc (sum_list (map (\<lambda>kv. rank (snd kv)) kvs))"
| "rank (PObj obj) = 1"
| "rank v = 0"

lemma rank_json_default: "json_default rt obj = Inr v \<Longrightarrow> rank v = 0"
  by (cases obj) (auto split: sum.splits)

lemma rank_member: "x \<in> set xs \<Longrightarrow> rank x \<le> sum_list (map rank xs)"
  by (induction xs) auto

lemma rank_member_snd: "(k, v) \<in> set kvs \<Longrightarrow> rank v \<le> sum_list (map (\<lambda>kv. rank (snd kv)) kvs)"
  by (induction kvs) auto

text \<open>
  \<^verbatim>\<open>json.dumps(o, default=json_default)\<close>: the encoder's case analysis, with the hook
  called on every object that is none of the native types and its result encoded in
  turn.
\<close>

function encode :: "builtins \<Rightarrow> pyval \<Rightarrow> pyerror + json" where
  "encode rt (PStr s) = Inr (JStr s)"
| "encode rt PNone = Inr JNull"
| "encode rt (PBool b) = Inr (JBool b)"
| "encode rt (PInt i) = Inr (JInt i)"
| "encode rt (PFloat f) = Inr (JFloat f)"
| "encode rt (PList xs) =
     (case traverse (encode rt) xs of Inl e \<Rightarrow> Inl e | Inr js \<Rightarrow> Inr (JArr js))"
| "encode rt (PTuple xs) =
     (case traverse (encode rt) xs of Inl e \<Rightarrow> Inl e | Inr js \<Rightarrow> Inr (JArr js))"
| "encode rt (PDict kvs) =
     (case traverse
             (\<lambda>kv. case key_str rt (fst kv) of
                      Inl e \<Rightarrow> Inl e
                    | Inr s \<Rightarrow> (case encode rt (snd kv) of
                                 Inl e \<Rightarrow> Inl e
                               | Inr j \<Rightarrow> Inr (s, j)))
             kvs of
        Inl e \<Rightarrow> Inl e
      | Inr ms \<Rightarrow> Inr (JObj ms))"
| "encode rt (PObj obj) =
     (case json_default rt obj of Inl e \<Rightarrow> Inl e | Inr v \<Rightarrow> encode rt v)"
  by pat_completeness auto
termination
proof (relation "measure (\<lambda>(rt, v). rank v)")
  show "wf (measure (\<lambda>(rt, v). rank v))"
    by simp
next
  fix rt :: builtins and xs :: "pyval list" and x
  assume "x \<in> set xs"
  then show "((rt, x), (rt, PList xs)) \<in> measure (\<lambda>(rt, v). rank v)"
    using rank_member [of x xs] by simp
next
  fix rt :: builtins and xs :: "pyval list" and x
  assume "x \<in> set xs"
  then show "((rt, x), (rt, PTuple xs)) \<in> measure (\<lambda>(rt, v). rank v)"
    using rank_member [of x xs] by simp
next
  fix rt :: builtins and kvs and kv :: "pykey \<times> pyval" and s :: string
  assume "kv \<in> set kvs"
  then show "((rt, snd kv), (rt, PDict kvs)) \<in> measure (\<lambda>(rt, v). rank v)"
    using rank_member_snd [of "fst kv" "snd kv" kvs] by simp
next
  fix rt :: builtins and obj v
  assume "json_default rt obj = Inr v"
  then show "((rt, v), (rt, PObj obj)) \<in> measure (\<lambda>(rt, v). rank v)"
    by (simp add: rank_json_default)
qed

text \<open>
  A Python \<^verbatim>\<open>dict\<close> is kept as the list of its items in insertion order, with
  distinct keys. Storing under a key that is present replaces the value in place,
  storing under a new key appends: \<open>AList.update\<close>. \<open>dict_of\<close> builds a dictionary
  from a sequence of items, as \<^verbatim>\<open>dict(...)\<close> and the decoder do; of two items with the
  same key the later value stays.
\<close>

definition dict_of :: "('k \<times> 'v) list \<Rightarrow> ('k \<times> 'v) list" where
  "dict_of kvs = fold (\<lambda>kv. AList.update (fst kv) (snd kv)) kvs []"

text \<open>\<^verbatim>\<open>json.loads\<close> on a document\<close>

fun decode :: "json \<Rightarrow> pyval" where
  "decode JNull = PNone"
| "decode (JBool b) = PBool b"
| "decode (JInt i) = PInt i"
| "decode (JFloat f) = PFloat f"
| "decode (JStr s) = PStr s"
| "decode (JArr js) = PList (map decode js)"
| "decode (JObj ms) = PDict (dict_of (map (\<lambda>m. (KStr (fst m), decode (snd m))) ms))"

text \<open>
  A row of a query result (\<^verbatim>\<open>asyncpg.Record\<close>): the columns in order, each a column
  name with its value. \<^verbatim>\<open>dict(record)\<close> is the dictionary of its items.
\<close>

type_synonym row = "(string \<times> pyval) list"

definition dict :: "row \<Rightarrow> pyval" where
  "dict record = PDict (dict_of (map (\<lambda>kv. (KStr (fst kv), snd kv)) record))"

text \<open>
  \<^verbatim>\<open>to_dict(record)\<close>:
  \<^verbatim>\<open>json.loads(json.dumps(dict(record), default=json_default))\<close>
\<close>

definition to_dict :: "builtins \<Rightarrow> row \<Rightarrow> pyerror + pyval" where
  "to_dict rt record =
     (case encode rt (dict record) of Inl e \<Rightarrow> Inl e | Inr j \<Rightarrow> Inr (decode j))"

text \<open>Reading a dictionary: \<^verbatim>\<open>d.get(k)\<close> for a string \<open>k\<close>, and \<^verbatim>\<open>list(d.keys())\<close>.\<close>

fun get :: "pyval \<Rightarrow> string \<Rightarrow> pyval option" where
  "get (PDict kvs) k = map_of kvs (KStr k)"
| "get v k = None"

fun keys :: "pyval \<Rightarrow> pykey list" where
  "keys (PDict kvs) = map fst kvs"
| "keys v = []"

text \<open>
  The items of a dictionary with string keys, as a mapping that can be handed to
  \<^verbatim>\<open>to_dict\<close> again.
\<close>

fun as_row :: "pyval \<Rightarrow> row" where
  "as_row (PDict kvs) = concat (map (\<lambda>kv. case fst kv of KStr s \<Rightarrow> [(s, snd kv)] | _ \<Rightarrow> []) kvs)"
| "as_row v = []"

text \<open>
  One value through the encoder and the decoder, as \<^verbatim>\<open>to_dict\<close> sends every value of
  the row.
\<close>

definition convert :: "builtins \<Rightarrow> pyval \<Rightarrow> pyerror + pyval" where
  "convert rt v = (case encode rt v of Inl e \<Rightarrow> Inl e | Inr j \<Rightarrow> Inr (decode j))"

text \<open>\<open>ok r\<close>: the call returned, it did not raise.\<close>

fun ok :: "'e + 'a \<Rightarrow> bool" where
  "ok (Inr y) = True"
| "ok (Inl e) = False"

fun str_key :: "pykey \<Rightarrow> bool" where
  "str_key (KStr s) = True"
| "str_key k = False"

text \<open>
  The values the encoder accepts: every decimal in them converts to a float and every
  dictionary key in them can be written as a member name.
\<close>

fun encodable :: "builtins \<Rightarrow> pyval \<Rightarrow> bool" where
  "encodable rt (PList xs) = list_all (encodable rt) xs"
| "encodable rt (PTuple xs) = list_all (encodable rt) xs"
| "encodable rt (PDict kvs) = list_all (\<lambda>kv. fst kv \<noteq> KOther \<and> encodable rt (snd kv)) kvs"
| "encodable rt (PObj (Decimal d)) = ok (float_of_decimal rt d)"
| "encodable rt v = True"

text \<open>
  The values \<^verbatim>\<open>json.loads\<close> returns: \<^verbatim>\<open>None\<close>, booleans, numbers, strings, lists of such
  values and dictionaries from strings to such values.
\<close>

fun native :: "pyval \<Rightarrow> bool" where
  "native (PList xs) = list_all native xs"
| "native (PTuple xs) = False"
| "native (PDict kvs) =
     (distinct (map fst kvs) \<and> list_all (\<lambda>kv. str_key (fst kv) \<and> native (snd kv)) kvs)"
| "native (PObj obj) = False"
| "native v = True"

text \<open>The values JSON has of its own that are not containers.\<close>

fun scalar :: "pyval \<Rightarrow> bool" where
  "scalar PNone = True"
| "scalar (PBool b) = True"
| "scalar (PInt i) = True"
| "scalar (PFloat f) = True"
| "scalar (PStr s) = True"
| "scalar v = False"

section \<open>The connection descriptor and the configuration\<close>

text \<open>
  \<^verbatim>\<open>model/postresql.py\<close>, class \<^verbatim>\<open>Connection\<close>: \<^verbatim>\<open>database\<close>, \<^verbatim>\<open>user\<close> and
  \<^verbatim>\<open>password\<close> are required, \<^verbatim>\<open>host\<close> and \<^verbatim>\<open>port\<close> have defaults. A keyword argument
  that the caller leaves out is \<open>None\<close>.
\<close>

record connection =
  database :: string
  user :: string
  password :: string
  host :: string
  port :: int

definition Connection ::
  "string \<Rightarrow> string \<Rightarrow> string \<Rightarrow> string option \<Rightarrow> int option \<Rightarrow> connection" where
  "Connection d u p h n =
     \<lparr>database = d, user = u, password = p,
      host = (case h of None \<Rightarrow> ''localhost'' | Some x \<Rightarrow> x),
      port = (case n of None \<Rightarrow> 5439 | Some x \<Rightarrow> x)\<rparr>"

text \<open>
  The database driver (\<^verbatim>\<open>asyncpg\<close>), outside this repository: opening a connection,
  fetching the rows of a query with a timeout, closing. \<open>'c\<close> is the state of a
  connection; a call returns its result or the exception it raises, with the state the
  connection is left in.
\<close>

record 'c driver =
  db_connect :: "string \<Rightarrow> string \<Rightarrow> string \<Rightarrow> string \<Rightarrow> int \<Rightarrow> pyerror + 'c"
  db_fetch :: "'c \<Rightarrow> string \<Rightarrow> int \<Rightarrow> (pyerror + row list) \<times> 'c"
  db_close :: "'c \<Rightarrow> (pyerror + unit) \<times> 'c"

text \<open>\<^verbatim>\<open>Connection.connect\<close>\<close>

definition connect :: "'c driver \<Rightarrow> connection \<Rightarrow> pyerror + 'c" where
  "connect drv self =
     db_connect drv (database self) (user self) (password self) (host self) (port self)"

text \<open>
  Modelled from the spec: the class \<^verbatim>\<open>Configuration\<close> of \<^verbatim>\<open>model/configuration.py\<close>,
  which \<^verbatim>\<open>plugin.py\<close> imports and which is not among the sources. The specification
  gives it as \<^verbatim>\<open>{sourceId: string, query: string, timeout: integer (seconds, default 20)}\<close>.
\<close>

record configuration =
  source_id :: string
  config_query :: string
  config_timeout :: int

definition Configuration :: "string \<Rightarrow> string \<Rightarrow> int option \<Rightarrow> configuration" where
  "Configuration s q t =
     \<lparr>source_id = s, config_query = q,
      config_timeout = (case t of None \<Rightarrow> 20 | Some x \<Rightarrow> x)\<rparr>"

text \<open>
  \<^verbatim>\<open>register()\<close>: the \<^verbatim>\<open>Spec\<close> of the plugin. The licence, the author, the form
  and the metadata are data for the host's user interface and are left out.
\<close>

record plugin_spec =
  module :: string
  className :: string
  inputs :: "string list"
  outputs :: "string list"
  version :: string
  init :: pyval

definition register :: plugin_spec where
  "register =
     \<lparr>module = ''tracardi_postgresql_connector.plugin'',
      className = ''PostreSQLConnectorAction'',
      inputs = [''payload''],
      outputs = [''result''],
      version = ''0.6.0.1'',
      init = PDict [(KStr ''source'', PDict [(KStr ''id'', PNone)]),
                    (KStr ''query'', PNone),
                    (KStr ''timeout'', PInt 20)]\<rparr>"

section \<open>The action\<close>

text \<open>
  \<^verbatim>\<open>PostreSQLConnectorAction\<close>: the attributes \<^verbatim>\<open>db\<close>, \<^verbatim>\<open>query\<close> and \<^verbatim>\<open>timeout\<close> that
  \<^verbatim>\<open>__init__\<close> sets. \<^verbatim>\<open>db\<close> is \<open>None\<close> or a connection of the driver; every connection
  object is true in \<^verbatim>\<open>if self.db\<close>.
\<close>

record 'c action =
  db :: "'c option"
  query :: string
  timeout :: int

text \<open>
  \<^verbatim>\<open>Result(port=..., value=...)\<close> of the plugin SDK; the field \<open>val\<close> is its
  \<^verbatim>\<open>value\<close>.
\<close>

record result =
  port :: string
  val :: pyval

text \<open>
  \<^verbatim>\<open>run(self, payload)\<close>. The rows are converted in a list comprehension, so the first
  row that \<^verbatim>\<open>to_dict\<close> raises on ends the call.
\<close>

definition run ::
  "'c driver \<Rightarrow> builtins \<Rightarrow> 'c action \<Rightarrow> pyval \<Rightarrow> (pyerror + result) \<times> 'c action" where
  "run drv rt self payload =
     (case db self of
        None \<Rightarrow> (Inl AttributeError, self)
      | Some c \<Rightarrow>
          (case db_fetch drv c (query self) (timeout self) of
             (Inl e, c') \<Rightarrow> (Inl e, self\<lparr>db := Some c'\<rparr>)
           | (Inr rows, c') \<Rightarrow>
               (case traverse (to_dict rt) rows of
                  Inl e \<Rightarrow> (Inl e, self\<lparr>db := Some c'\<rparr>)
                | Inr rs \<Rightarrow>
                    (Inr \<lparr>port = ''result'', val = PDict [(KStr ''result'', PList rs)]\<rparr>,
                     self\<lparr>db := Some c'\<rparr>))))"

text \<open>\<^verbatim>\<open>close(self)\<close>: \<^verbatim>\<open>if self.db: await self.db.close()\<close>\<close>

definition close :: "'c driver \<Rightarrow> 'c action \<Rightarrow> (pyerror + unit) \<times> 'c action" where
  "close drv self =
     (case db self of
        None \<Rightarrow> (Inr (), self)
      | Some c \<Rightarrow> (case db_close drv c of (r, c') \<Rightarrow> (r, self\<lparr>db := Some c'\<rparr>)))"

text \<open>
  \<^verbatim>\<open>__init__(self, config, credentials)\<close>, read as the coroutine its body is written
  to be: the credentials are resolved into a \<^verbatim>\<open>Connection\<close>
  (\<^verbatim>\<open>credentials.get_credentials\<close>, of the host), the connection is opened, the query and
  the timeout are stored. An exception of either call leaves no action.
\<close>

definition action_init ::
  "'c driver \<Rightarrow> ('r \<Rightarrow> pyerror + connection) \<Rightarrow> configuration \<Rightarrow> 'r \<Rightarrow> pyerror + 'c action" where
  "action_init drv get_credentials config credentials =
     (case get_credentials credentials of
        Inl e \<Rightarrow> Inl e
      | Inr connection \<Rightarrow>
          (case connect drv connection of
             Inl e \<Rightarrow> Inl e
           | Inr c \<Rightarrow> Inr \<lparr>db = Some c, query = config_query config, timeout = config_timeout config\<rparr>))"

text \<open>
  The methods of the class as the source declares them: with \<^verbatim>\<open>def\<close> or with
  \<^verbatim>\<open>async def\<close>, and whether the body has an \<^verbatim>\<open>await\<close>. Python compiles a module
  whole, and an \<^verbatim>\<open>await\<close> in the body of a plain \<^verbatim>\<open>def\<close> is a \<^verbatim>\<open>SyntaxError\<close>
  (\<^verbatim>\<open>'await' outside async function\<close>).
\<close>

datatype def_kind = Def | AsyncDef

record pymethod =
  name :: string
  kind :: def_kind
  awaits :: bool

definition PostreSQLConnectorAction :: "pymethod list" where
  "PostreSQLConnectorAction =
     [\<lparr>name = ''build'', kind = AsyncDef, awaits = True\<rparr>,
      \<lparr>name = ''__init__'', kind = Def, awaits = True\<rparr>,
      \<lparr>name = ''run'', kind = AsyncDef, awaits = True\<rparr>,
      \<lparr>name = ''close'', kind = AsyncDef, awaits = True\<rparr>,
      \<lparr>name = ''to_dict'', kind = Def, awaits = False\<rparr>]"

definition compile_method :: "pymethod \<Rightarrow> pyerror + unit" where
  "compile_method m = (if kind m = Def \<and> awaits m then Inl SyntaxError else Inr ())"

definition import_plugin :: "pyerror + unit list" where
  "import_plugin = traverse compile_method PostreSQLConnectorAction"

text \<open>
  \<^verbatim>\<open>build(**kwargs)\<close>, as the host reaches it: the module is imported, the resource of
  the configured source is loaded from the host's storage, and the action is
  constructed from its credentials.
\<close>

definition build ::
  "'c driver \<Rightarrow> (string \<Rightarrow> pyerror + 'r) \<Rightarrow> ('r \<Rightarrow> pyerror + connection) \<Rightarrow> configuration \<Rightarrow>
   pyerror + 'c action" where
  "build drv load get_credentials config =
     (case import_plugin of
        Inl e \<Rightarrow> Inl e
      | Inr u \<Rightarrow>
          (case load (source_id config) of
             Inl e \<Rightarrow> Inl e
           | Inr credentials \<Rightarrow> action_init drv get_credentials config credentials))"

section \<open>Example values\<close>

text \<open>
  The row of the specification's scenario: an integer, the timestamp
  \<^verbatim>\<open>2023-01-01T00:00:00\<close> and the decimal \<^verbatim>\<open>19.99\<close>; with it a date, a time of day (an
  object of another type, \<^verbatim>\<open>str\<close> gives \<^verbatim>\<open>'01:02:03'\<close>) and a null.
\<close>

definition example_row :: row where
  "example_row =
     [(''id'', PInt 1),
      (''created'', PObj (Datetime \<lparr>year = 2023, month = 1, day = 1, hour = 0, minute = 0,
                                second = 0, microsecond = 0, utcoffset = None\<rparr>)),
      (''amount'', PObj (Decimal (Dec False 1999 (- 2)))),
      (''born'', PObj (Date \<lparr>year = 1987, month = 6, day = 5\<rparr>)),
      (''at'', PObj (Other ''01:02:03'')),
      (''note'', PNone)]"

text \<open>A row with a single column, a date.\<close>

definition example_date_row :: row where
  "example_date_row = [(''born'', PObj (Date \<lparr>year = 1987, month = 6, day = 5\<rparr>))]"

text \<open>
  The conversions at the values of the examples: \<^verbatim>\<open>float(Decimal('19.99'))\<close> is
  \<^verbatim>\<open>0x1.3fd70a3d70a3dp+4\<close>, that is \<open>5626684784446013 \<times> 2\<^sup>-\<^sup>4\<^sup>8\<close>, and a signalling NaN
  raises. No other decimal and no float key occurs in the examples.
\<close>

definition example_builtins :: builtins where
  "example_builtins =
     \<lparr>float_of_decimal =
        (\<lambda>d. if d = Dec False 1999 (- 2) then Inr (Finite False 5626684784446013 (- 48))
             else Inl ValueError),
      floatstr = (\<lambda>f. ''nan'')\<rparr>"

definition example_out :: pyval where
  "example_out =
     PDict [(KStr ''id'', PInt 1),
            (KStr ''created'', PStr ''2023-01-01T00:00:00''),
            (KStr ''amount'', PFloat (Finite False 5626684784446013 (- 48))),
            (KStr ''born'', PStr ''1987-06-05''),
            (KStr ''at'', PStr ''01:02:03''),
            (KStr ''note'', PNone)]"

text \<open>
  Two drivers over a connection that is open or closed. The first answers every query
  with the given rows and closes without error, also when closed already. The second
  fails to close an open connection gracefully: it raises and leaves it closed.
\<close>

datatype conn_state = Opened | Closed

definition example_driver :: "row list \<Rightarrow> conn_state driver" where
  "example_driver rows =
     \<lparr>db_connect = (\<lambda>d u p h n. Inr Opened),
      db_fetch = (\<lambda>c q t. case c of Opened \<Rightarrow> (Inr rows, Opened) | Closed \<Rightarrow> (Inl InterfaceError, Closed)),
      db_close = (\<lambda>c. (Inr (), Closed))\<rparr>"

definition reset_driver :: "conn_state driver" where
  "reset_driver =
     \<lparr>db_connect = (\<lambda>d u p h n. Inr Opened),
      db_fetch = (\<lambda>c q t. (Inl TimeoutError, c)),
      db_close = (\<lambda>c. case c of Opened \<Rightarrow> (Inl OSError, Closed) | Closed \<Rightarrow> (Inr (), Closed))\<rparr>"

definition example_action :: "conn_state action" where
  "example_action = \<lparr>db = Some Opened, query = ''SELECT 1'', timeout = 20\<rparr>"

section \<open>Properties of the encoder and the decoder\<close>

lemma traverse_list_all2:
  "(traverse f xs = Inr ys) = list_all2 (\<lambda>x y. f x = Inr y) xs ys"
proof (induction xs arbitrary: ys)
  case Nil
  then show ?case by auto
next
  case (Cons x xs)
  show ?case
    by (cases ys) (auto simp: Cons.IH [symmetric] split: sum.splits)
qed

lemma update_fresh: "k \<notin> fst ` set al \<Longrightarrow> AList.update k v al = al @ [(k, v)]"
  by (induction al) auto

lemma fold_update_distinct:
  "distinct (map fst (acc @ kvs)) \<Longrightarrow>
   fold (\<lambda>kv. AList.update (fst kv) (snd kv)) kvs acc = acc @ kvs"
proof (induction kvs arbitrary: acc)
  case Nil
  then show ?case by simp
next
  case (Cons kv kvs)
  from Cons.prems have fresh: "fst kv \<notin> fst ` set acc"
    by auto
  from Cons.prems have "distinct (map fst ((acc @ [kv]) @ kvs))"
    by simp
  then have "fold (\<lambda>kv. AList.update (fst kv) (snd kv)) kvs (acc @ [kv]) = (acc @ [kv]) @ kvs"
    by (rule Cons.IH)
  with fresh show ?case
    by (simp add: update_fresh)
qed

lemma dict_of_distinct: "distinct (map fst kvs) \<Longrightarrow> dict_of kvs = kvs"
  using fold_update_distinct [of "[]" kvs] by (simp add: dict_of_def)

lemma fold_update_keys_distinct:
  "distinct (map fst acc) \<Longrightarrow>
   distinct (map fst (fold (\<lambda>kv. AList.update (fst kv) (snd kv)) kvs acc))"
  by (induction kvs arbitrary: acc) (simp_all add: distinct_update)

lemma distinct_dict_of: "distinct (map fst (dict_of kvs))"
  by (simp add: dict_of_def fold_update_keys_distinct)

lemma set_update_subset: "set (AList.update k v al) \<subseteq> insert (k, v) (set al)"
  by (induction al) auto

lemma set_fold_update:
  "set (fold (\<lambda>kv. AList.update (fst kv) (snd kv)) kvs acc) \<subseteq> set acc \<union> set kvs"
proof (induction kvs arbitrary: acc)
  case Nil
  then show ?case by simp
next
  case (Cons kv kvs)
  have "set (fold (\<lambda>kv. AList.update (fst kv) (snd kv)) kvs (AList.update (fst kv) (snd kv) acc))
        \<subseteq> set (AList.update (fst kv) (snd kv) acc) \<union> set kvs"
    by (rule Cons.IH)
  also have "\<dots> \<subseteq> insert kv (set acc) \<union> set kvs"
    using set_update_subset [of "fst kv" "snd kv" acc] by auto
  finally show ?case by auto
qed

lemma set_dict_of: "set (dict_of kvs) \<subseteq> set kvs"
  using set_fold_update [of kvs "[]"] by (simp add: dict_of_def)

lemma fold_update_keys_set:
  "fst ` set (fold (\<lambda>kv. AList.update (fst kv) (snd kv)) kvs acc) = fst ` set acc \<union> fst ` set kvs"
  by (induction kvs arbitrary: acc) (auto simp: dom_update)

lemma native_decode: "native (decode j)"
proof (induction j)
  case (JArr js)
  then show ?case by (simp add: list_all_iff)
next
  case (JObj ms)
  let ?kvs = "map (\<lambda>m. (KStr (fst m), decode (snd m))) ms"
  have "\<And>kv. kv \<in> set ?kvs \<Longrightarrow> str_key (fst kv) \<and> native (snd kv)"
    using JObj by (auto simp: snds.simps)
  with set_dict_of [of ?kvs] have "\<And>kv. kv \<in> set (dict_of ?kvs) \<Longrightarrow> str_key (fst kv) \<and> native (snd kv)"
    by blast
  then show ?case
    by (simp add: distinct_dict_of list_all_iff)
qed simp_all

lemma member_pair:
  "(key_str rt (fst kv) = Inr (fst m) \<and> encode rt (snd kv) = Inr (snd m)) =
   ((case key_str rt (fst kv) of
       Inl e \<Rightarrow> Inl e
     | Inr s \<Rightarrow> (case encode rt (snd kv) of Inl e \<Rightarrow> Inl e | Inr j \<Rightarrow> Inr (s, j))) = Inr m)"
  by (cases m) (auto split: sum.splits)

lemma encode_PDict:
  "(encode rt (PDict kvs) = Inr j) =
   (\<exists>ms. j = JObj ms \<and>
      list_all2 (\<lambda>kv m. key_str rt (fst kv) = Inr (fst m) \<and> encode rt (snd kv) = Inr (snd m))
        kvs ms)"
  by (auto simp: member_pair traverse_list_all2 [symmetric] split: sum.splits)

lemma encode_PList:
  "(encode rt (PList xs) = Inr j) =
   (\<exists>js. j = JArr js \<and> list_all2 (\<lambda>x j. encode rt x = Inr j) xs js)"
  by (auto simp: traverse_list_all2 [symmetric] split: sum.splits)

lemma key_str_str: "str_key k \<Longrightarrow> key_str rt k = Inr s \<Longrightarrow> k = KStr s"
  by (cases k) auto

lemma convert_Inr:
  "convert rt v = Inr w \<Longrightarrow>
   encode rt v = Inr (projr (encode rt v)) \<and> decode (projr (encode rt v)) = w"
  by (auto simp: convert_def split: sum.splits)

lemma convert_native: "native v \<Longrightarrow> convert rt v = Inr v"
proof (induction v)
  case (PList xs)
  let ?js = "map (\<lambda>x. projr (encode rt x)) xs"
  have each: "encode rt x = Inr (projr (encode rt x)) \<and> decode (projr (encode rt x)) = x"
    if "x \<in> set xs" for x
  proof -
    from that PList have "convert rt x = Inr x"
      by (simp add: list_all_iff)
    then show ?thesis
      by (rule convert_Inr)
  qed
  have "list_all2 (\<lambda>x j. encode rt x = Inr j) xs ?js"
    using each by (auto simp: list_all2_map2 intro!: list_all2_same [THEN iffD2])
  then have "encode rt (PList xs) = Inr (JArr ?js)"
    unfolding encode_PList by blast
  moreover have "map decode ?js = xs"
    using each by (auto intro!: map_idI)
  ultimately show ?case
    by (simp add: convert_def)
next
  case (PDict kvs)
  let ?ms = "map (\<lambda>kv. (projr (key_str rt (fst kv)), projr (encode rt (snd kv)))) kvs"
  have each: "key_str rt (fst kv) = Inr (projr (key_str rt (fst kv))) \<and> fst kv = KStr (projr (key_str rt (fst kv)))
      \<and> encode rt (snd kv) = Inr (projr (encode rt (snd kv))) \<and> decode (projr (encode rt (snd kv))) = snd kv"
    if "kv \<in> set kvs" for kv
  proof -
    from that PDict.prems have k: "str_key (fst kv)" and n: "native (snd kv)"
      by (auto simp: list_all_iff)
    have "snd kv \<in> Basic_BNFs.snds kv"
      by (cases kv) (simp add: snds.simps)
    with PDict.IH that n have "convert rt (snd kv) = Inr (snd kv)"
      by blast
    then have "encode rt (snd kv) = Inr (projr (encode rt (snd kv))) \<and>
        decode (projr (encode rt (snd kv))) = snd kv"
      by (rule convert_Inr)
    with k show ?thesis
      by (cases "fst kv") auto
  qed
  have rel: "list_all2 (\<lambda>kv m. key_str rt (fst kv) = Inr (fst m) \<and> encode rt (snd kv) = Inr (snd m)) kvs ?ms"
    using each by (auto simp: list_all2_map2 intro!: list_all2_same [THEN iffD2])
  have inv: "map (\<lambda>m. (KStr (fst m), decode (snd m))) ?ms = kvs"
    using each by (auto intro!: map_idI simp: prod_eq_iff)
  from rel have enc: "encode rt (PDict kvs) = Inr (JObj ?ms)"
    unfolding encode_PDict by blast
  from PDict.prems have d: "dict_of kvs = kvs"
    by (simp add: dict_of_distinct)
  have "decode (JObj ?ms) = PDict kvs"
    by (simp only: decode.simps inv d)
  with enc show ?case
    by (simp only: convert_def sum.case)
qed (simp_all add: convert_def)

lemma convert_PDict:
  assumes dist: "distinct (map fst d)"
    and strs: "list_all (\<lambda>kv. str_key (fst kv)) d"
    and conv: "convert rt (PDict d) = Inr out"
  shows "\<exists>d'. out = PDict d' \<and>
           list_all2 (\<lambda>kv kv'. fst kv' = fst kv \<and> convert rt (snd kv) = Inr (snd kv')) d d'"
proof -
  from conv obtain j where enc: "encode rt (PDict d) = Inr j" and out: "out = decode j"
    by (auto simp: convert_def split: sum.splits)
  from enc obtain ms where j: "j = JObj ms"
    and rel: "list_all2 (\<lambda>kv m. key_str rt (fst kv) = Inr (fst m) \<and> encode rt (snd kv) = Inr (snd m)) d ms"
    unfolding encode_PDict by blast
  let ?d' = "map (\<lambda>m. (KStr (fst m), decode (snd m))) ms"
  from rel have "list_all2 (\<lambda>kv m. fst kv = KStr (fst m) \<and> convert rt (snd kv) = Inr (decode (snd m))) d ms"
  proof (rule list.rel_mono_strong)
    fix kv m
    assume "kv \<in> set d"
      and "key_str rt (fst kv) = Inr (fst m) \<and> encode rt (snd kv) = Inr (snd m)"
    with strs show "fst kv = KStr (fst m) \<and> convert rt (snd kv) = Inr (decode (snd m))"
      by (auto simp: list_all_iff convert_def dest: key_str_str)
  qed
  then have rel': "list_all2 (\<lambda>kv kv'. fst kv' = fst kv \<and> convert rt (snd kv) = Inr (snd kv')) d ?d'"
    by (auto simp: list_all2_map2 elim!: list_all2_mono)
  then have "map fst ?d' = map fst d"
    by (induction rule: list_all2_induct) auto
  with dist have "dict_of ?d' = ?d'"
    by (simp only: dict_of_distinct)
  with out j have "out = PDict ?d'"
    by (simp only: decode.simps)
  with rel' show ?thesis
    by blast
qed

lemma list_all2_map_of:
  assumes "list_all2 (\<lambda>kv kv'. fst kv' = fst kv \<and> P (snd kv) (snd kv')) d d'"
    and "map_of d k = Some v"
  shows "\<exists>v'. map_of d' k = Some v' \<and> P v v'"
  using assms by (induction rule: list_all2_induct) (auto split: if_splits)

lemma list_all2_keys:
  "list_all2 (\<lambda>kv kv'. fst kv' = fst kv \<and> P (snd kv) (snd kv')) d d' \<Longrightarrow> map fst d' = map fst d"
  by (induction rule: list_all2_induct) auto

lemma dict_row:
  "\<exists>d. dict record = PDict d \<and> distinct (map fst d) \<and> list_all (\<lambda>kv. str_key (fst kv)) d \<and>
     fst ` set d = KStr ` fst ` set record"
proof -
  let ?kvs = "map (\<lambda>kv. (KStr (fst kv), snd kv)) record"
  have "\<And>kv. kv \<in> set (dict_of ?kvs) \<Longrightarrow> str_key (fst kv)"
    using set_dict_of [of ?kvs] by auto
  moreover have "fst ` set (dict_of ?kvs) = KStr ` fst ` set record"
    using fold_update_keys_set [of ?kvs "[]"] by (simp add: dict_of_def image_image)
  ultimately show ?thesis
    by (simp add: dict_def distinct_dict_of list_all_iff)
qed

lemma to_dict_items:
  assumes "to_dict rt record = Inr out"
  shows "\<exists>d d'. dict record = PDict d \<and> out = PDict d' \<and>
           fst ` set d = KStr ` fst ` set record \<and>
           list_all2 (\<lambda>kv kv'. fst kv' = fst kv \<and> convert rt (snd kv) = Inr (snd kv')) d d'"
proof -
  from dict_row obtain d where d: "dict record = PDict d" "distinct (map fst d)"
      "list_all (\<lambda>kv. str_key (fst kv)) d" "fst ` set d = KStr ` fst ` set record"
    by blast
  from assms d(1) have "convert rt (PDict d) = Inr out"
    by (simp add: to_dict_def convert_def)
  from convert_PDict [OF d(2) d(3) this] d(1) d(4) show ?thesis
    by blast
qed

lemma to_dict_get:
  assumes "to_dict rt record = Inr out" and "get (dict record) k = Some v"
  shows "\<exists>v'. get out k = Some v' \<and> convert rt v = Inr v'"
proof -
  from to_dict_items [OF assms(1)] obtain d d' where d: "dict record = PDict d" "out = PDict d'"
    and rel: "list_all2 (\<lambda>kv kv'. fst kv' = fst kv \<and> convert rt (snd kv) = Inr (snd kv')) d d'"
    by blast
  from assms(2) d(1) have "map_of d (KStr k) = Some v"
    by simp
  from list_all2_map_of [OF rel this] d(2) show ?thesis
    by simp
qed

lemma convert_scalar: "scalar v \<Longrightarrow> convert rt v = Inr v"
  by (cases v) (simp_all add: convert_def)

lemma convert_obj:
  "convert rt (PObj obj) = (case json_default rt obj of Inl e \<Rightarrow> Inl e | Inr v \<Rightarrow> convert rt v)"
  by (simp add: convert_def split: sum.splits)

lemma as_row_str_keys:
  "list_all (\<lambda>kv. str_key (fst kv)) d \<Longrightarrow> map (\<lambda>kv. (KStr (fst kv), snd kv)) (as_row (PDict d)) = d"
proof (induction d)
  case Nil
  then show ?case by simp
next
  case (Cons kv d)
  then show ?case
    by (cases kv; cases "fst kv") auto
qed

lemma ok_traverse: "ok (traverse f xs) = list_all (\<lambda>x. ok (f x)) xs"
  by (induction xs) (auto split: sum.splits)

lemma ok_key_str: "ok (key_str rt k) = (k \<noteq> KOther)"
  by (cases "(rt, k)" rule: key_str.cases) simp_all

lemma ok_encode: "ok (encode rt v) = encodable rt v"
proof (induction rt v rule: encode.induct)
  case (6 rt xs)
  then show ?case
    using ok_traverse [of "encode rt" xs] by (auto simp: list_all_iff split: sum.splits)
next
  case (7 rt xs)
  then show ?case
    using ok_traverse [of "encode rt" xs] by (auto simp: list_all_iff split: sum.splits)
next
  case (8 rt kvs)
  let ?f = "\<lambda>kv. case key_str rt (fst kv) of
                   Inl e \<Rightarrow> Inl e
                 | Inr s \<Rightarrow> (case encode rt (snd kv) of Inl e \<Rightarrow> Inl e | Inr j \<Rightarrow> Inr (s, j))"
  have "ok (?f kv) = (fst kv \<noteq> KOther \<and> encodable rt (snd kv))" if "kv \<in> set kvs" for kv
  proof (cases "key_str rt (fst kv)")
    case (Inl e)
    with ok_key_str [of rt "fst kv"] show ?thesis
      by simp
  next
    case (Inr s)
    with ok_key_str [of rt "fst kv"] have "fst kv \<noteq> KOther"
      by simp
    with Inr "8" [OF that Inr] show ?thesis
      by (auto split: sum.splits)
  qed
  then have "list_all (\<lambda>kv. ok (?f kv)) kvs = list_all (\<lambda>kv. fst kv \<noteq> KOther \<and> encodable rt (snd kv)) kvs"
    by (simp add: list_all_iff)
  with ok_traverse [of ?f kvs] show ?case
    by (auto split: sum.splits)
next
  case (9 rt obj)
  then show ?case
    by (cases obj) (auto split: sum.splits)
qed simp_all

section \<open>Rows on which the serializer returns\<close>

lemma ok_to_dict: "ok (to_dict rt record) = encodable rt (dict record)"
  using ok_encode [of rt "dict record"] by (auto simp: to_dict_def split: sum.splits)

lemma encodable_dict:
  assumes "list_all (\<lambda>kv. encodable rt (snd kv)) record"
  shows "encodable rt (dict record)"
proof -
  let ?kvs = "map (\<lambda>kv. (KStr (fst kv), snd kv)) record"
  from assms have "\<And>kv. kv \<in> set ?kvs \<Longrightarrow> fst kv \<noteq> KOther \<and> encodable rt (snd kv)"
    by (auto simp: list_all_iff)
  with set_dict_of [of ?kvs]
  have "\<And>kv. kv \<in> set (dict_of ?kvs) \<Longrightarrow> fst kv \<noteq> KOther \<and> encodable rt (snd kv)"
    by blast
  then show ?thesis
    by (simp add: dict_def list_all_iff)
qed

lemma ok_Inr: "ok r \<Longrightarrow> \<exists>y. r = Inr y"
  by (cases r) simp_all

lemma traverse_to_dict:
  assumes "list_all (list_all (\<lambda>kv. encodable rt (snd kv))) rows"
  shows "\<exists>rs. traverse (to_dict rt) rows = Inr rs"
proof -
  from assms have "list_all (\<lambda>r. ok (to_dict rt r)) rows"
    by (simp add: list_all_iff ok_to_dict encodable_dict)
  then have "ok (traverse (to_dict rt) rows)"
    by (simp add: ok_traverse)
  then show ?thesis
    by (rule ok_Inr)
qed

lemma run_fetched:
  assumes "db self = Some c" and "db_fetch drv c (query self) (timeout self) = (Inr rows, c')"
  shows "fst (run drv rt self payload) =
     (case traverse (to_dict rt) rows of
        Inl e \<Rightarrow> Inl e
      | Inr rs \<Rightarrow> Inr \<lparr>port = ''result'', val = PDict [(KStr ''result'', PList rs)]\<rparr>)"
  using assms by (simp add: run_def split: sum.splits)

section \<open>Evaluating the examples\<close>

lemma str_nat_digit: "n < 10 \<Longrightarrow> str_nat n = [digit n]"
  by (simp add: str_nat.simps)

lemma str_nat_more: "\<not> n < 10 \<Longrightarrow> str_nat n = str_nat (n div 10) @ [digit n]"
  by (subst str_nat.simps) simp

lemmas format_defs =
  isoformat_datetime_def isoformat_date_def format_time_def format_offset_def zfill_def
  str_nat_digit str_nat_more digit_def

lemma example_dict:
  "dict example_row =
     PDict [(KStr ''id'', PInt 1),
            (KStr ''created'', PObj (Datetime \<lparr>year = 2023, month = 1, day = 1, hour = 0, minute = 0,
                                second = 0, microsecond = 0, utcoffset = None\<rparr>)),
            (KStr ''amount'', PObj (Decimal (Dec False 1999 (- 2)))),
            (KStr ''born'', PObj (Date \<lparr>year = 1987, month = 6, day = 5\<rparr>)),
            (KStr ''at'', PObj (Other ''01:02:03'')),
            (KStr ''note'', PNone)]"
  by (simp add: dict_def dict_of_def example_row_def)

lemma example_to_dict: "to_dict example_builtins example_row = Inr example_out"
  by (simp add: to_dict_def example_dict example_builtins_def example_out_def dict_of_def
      format_defs)


lemma example_encodable: "list_all (\<lambda>kv. encodable example_builtins (snd kv)) example_row"
  by (simp add: example_row_def example_builtins_def)

lemma example_date_to_dict:
  "to_dict example_builtins example_date_row = Inr (PDict [(KStr ''born'', PStr ''1987-06-05'')])"
  by (simp add: to_dict_def dict_def dict_of_def example_date_row_def format_defs)

section \<open>Construction of the action\<close>

text \<open>
  Read as a coroutine, \<^verbatim>\<open>__init__\<close> raises exactly when resolving the credentials or
  opening the connection raises, and otherwise holds the open connection, the query and
  the timeout of the configuration.
\<close>

lemma action_init_Inl:
  "(action_init drv get_credentials config credentials = Inl e) =
   (get_credentials credentials = Inl e \<or>
    (\<exists>connection. get_credentials credentials = Inr connection \<and> connect drv connection = Inl e))"
  by (auto simp: action_init_def split: sum.splits)

lemma action_init_Inr:
  "(action_init drv get_credentials config credentials = Inr self) =
   (\<exists>connection c. get_credentials credentials = Inr connection \<and> connect drv connection = Inr c \<and>
      self = \<lparr>db = Some c, query = config_query config, timeout = config_timeout config\<rparr>)"
  by (auto simp: action_init_def split: sum.splits)

text \<open>As the source is written the module does not compile.\<close>

lemma import_plugin_fails: "import_plugin = Inl SyntaxError"
  by (simp add: import_plugin_def PostreSQLConnectorAction_def compile_method_def)

section \<open>The claims\<close>

text \<open>
  C1. When the query returns rows, each made of values the encoder accepts, \<^verbatim>\<open>run\<close>
  returns on the port \<^verbatim>\<open>result\<close>, the only output port the plugin registers, the
  dictionary \<^verbatim>\<open>{"result": [...]}\<close> whose list has one entry for each row, the row as
  \<^verbatim>\<open>to_dict\<close> converts it. When the query returns no row the value is
  \<^verbatim>\<open>{"result": []}\<close>.
\<close>

theorem run_result:
  assumes "db self = Some c"
    and "db_fetch drv c (query self) (timeout self) = (Inr rows, c')"
    and "list_all (list_all (\<lambda>kv. encodable rt (snd kv))) rows"
  shows "outputs register = [''result''] \<and>
    (\<exists>rs. fst (run drv rt self payload) =
             Inr \<lparr>port = ''result'', val = PDict [(KStr ''result'', PList rs)]\<rparr> \<and>
          length rs = length rows \<and>
          list_all2 (\<lambda>record r. to_dict rt record = Inr r) rows rs) \<and>
    (rows = [] \<longrightarrow>
       fst (run drv rt self payload) =
         Inr \<lparr>port = ''result'', val = PDict [(KStr ''result'', PList [])]\<rparr>)"
proof -
  from traverse_to_dict [OF assms(3)] obtain rs where rs: "traverse (to_dict rt) rows = Inr rs"
    by blast
  then have rel: "list_all2 (\<lambda>record r. to_dict rt record = Inr r) rows rs"
    by (simp add: traverse_list_all2)
  then have "length rs = length rows"
    by (simp add: list_all2_lengthD)
  moreover from rs have "fst (run drv rt self payload) =
      Inr \<lparr>port = ''result'', val = PDict [(KStr ''result'', PList rs)]\<rparr>"
    by (simp add: run_fetched [OF assms(1,2)])
  moreover have "fst (run drv rt self payload) =
      Inr \<lparr>port = ''result'', val = PDict [(KStr ''result'', PList [])]\<rparr>" if "rows = []"
    using that by (simp add: run_fetched [OF assms(1,2)])
  ultimately show ?thesis
    using rel by (auto simp: register_def)
qed

theorem run_result_witness:
  "db example_action = Some Opened \<and>
   db_fetch (example_driver [example_row]) Opened (query example_action) (timeout example_action) =
     (Inr [example_row], Opened) \<and>
   list_all (list_all (\<lambda>kv. encodable example_builtins (snd kv))) [example_row] \<and>
   fst (run (example_driver [example_row]) example_builtins example_action PNone) =
     Inr \<lparr>port = ''result'', val = PDict [(KStr ''result'', PList [example_out])]\<rparr> \<and>
   fst (run (example_driver []) example_builtins example_action PNone) =
     Inr \<lparr>port = ''result'', val = PDict [(KStr ''result'', PList [])]\<rparr>"
proof -
  have a: "db example_action = Some Opened"
    by (simp add: example_action_def)
  have b: "db_fetch (example_driver rows) Opened (query example_action) (timeout example_action) =
      (Inr rows, Opened)" for rows
    by (simp add: example_driver_def)
  have c: "list_all (list_all (\<lambda>kv. encodable example_builtins (snd kv))) [example_row]"
    by (simp add: example_encodable)
  have d: "list_all (list_all (\<lambda>kv. encodable example_builtins (snd kv))) []"
    by simp
  from run_result [OF a b c, of PNone] obtain rs where
    "fst (run (example_driver [example_row]) example_builtins example_action PNone) =
       Inr \<lparr>port = ''result'', val = PDict [(KStr ''result'', PList rs)]\<rparr>"
    and "list_all2 (\<lambda>record r. to_dict example_builtins record = Inr r) [example_row] rs"
    by blast
  then have "fst (run (example_driver [example_row]) example_builtins example_action PNone) =
       Inr \<lparr>port = ''result'', val = PDict [(KStr ''result'', PList [example_out])]\<rparr>"
    by (auto simp: list_all2_Cons1 example_to_dict)
  moreover from run_result [OF a b d, of PNone]
  have "fst (run (example_driver []) example_builtins example_action PNone) =
       Inr \<lparr>port = ''result'', val = PDict [(KStr ''result'', PList [])]\<rparr>"
    by blast
  ultimately show ?thesis
    using a b c by blast
qed

text \<open>
  C8. For any two payloads and the same action, connection and driver, \<^verbatim>\<open>run\<close> gives the
  same result and leaves the same state: the payload takes no part in the query that is
  run nor in the value returned.
\<close>

theorem run_ignores_payload: "run drv rt self p1 = run drv rt self p2"
  by (simp add: run_def)

text \<open>
  C9. When the caller does not give them, the host of a \<^verbatim>\<open>Connection\<close> is
  \<^verbatim>\<open>localhost\<close> and its port 5439, and the timeout of a \<^verbatim>\<open>Configuration\<close> is 20, which
  is also the timeout in the \<^verbatim>\<open>init\<close> of \<^verbatim>\<open>register()\<close>.
\<close>

theorem defaults:
  "host (Connection d u p None n) = ''localhost'' \<and>
   connection.port (Connection d u p h None) = 5439 \<and>
   config_timeout (Configuration s q None) = 20 \<and>
   get (init register) ''timeout'' = Some (PInt 20)"
  by (simp add: Connection_def Configuration_def register_def)

text \<open>
  C2. When \<^verbatim>\<open>to_dict\<close> returns, every column of the row whose value is a
  \<^verbatim>\<open>datetime\<close> or a \<^verbatim>\<open>date\<close> is, under the same key of the result, the string that
  \<^verbatim>\<open>isoformat()\<close> gives for the value: its ISO 8601 representation.
\<close>

theorem to_dict_isoformat:
  assumes "to_dict rt record = Inr out"
  shows "(get (dict record) k = Some (PObj (Datetime t)) \<longrightarrow>
            get out k = Some (PStr (isoformat_datetime t))) \<and>
         (get (dict record) k = Some (PObj (Date d)) \<longrightarrow>
            get out k = Some (PStr (isoformat_date d)))"
  using to_dict_get [OF assms, of k] by (auto simp: convert_obj convert_def)

theorem to_dict_isoformat_witness:
  "to_dict example_builtins example_row = Inr example_out \<and>
   get (dict example_row) ''created'' =
     Some (PObj (Datetime \<lparr>year = 2023, month = 1, day = 1, hour = 0, minute = 0,
                          second = 0, microsecond = 0, utcoffset = None\<rparr>)) \<and>
   get example_out ''created'' = Some (PStr ''2023-01-01T00:00:00'') \<and>
   get (dict example_row) ''born'' = Some (PObj (Date \<lparr>year = 1987, month = 6, day = 5\<rparr>)) \<and>
   get example_out ''born'' = Some (PStr ''1987-06-05'')"
proof -
  let ?t = "\<lparr>year = 2023, month = 1, day = 1, hour = 0, minute = 0,
             second = 0, microsecond = 0, utcoffset = None\<rparr>"
  let ?d = "\<lparr>year = 1987, month = 6, day = 5\<rparr>"
  have g1: "get (dict example_row) ''created'' = Some (PObj (Datetime ?t))"
    by (simp add: example_dict)
  have g2: "get (dict example_row) ''born'' = Some (PObj (Date ?d))"
    by (simp add: example_dict)
  from to_dict_isoformat [OF example_to_dict, of "''created''" ?t] g1
  have "get example_out ''created'' = Some (PStr (isoformat_datetime ?t))"
    by blast
  moreover from to_dict_isoformat [OF example_to_dict, of "''born''" _ ?d] g2
  have "get example_out ''born'' = Some (PStr (isoformat_date ?d))"
    by blast
  moreover have "isoformat_datetime ?t = ''2023-01-01T00:00:00''"
    by (simp add: format_defs)
  moreover have "isoformat_date ?d = ''1987-06-05''"
    by (simp add: format_defs)
  ultimately show ?thesis
    using example_to_dict g1 g2 by simp
qed

text \<open>
  C3. When \<^verbatim>\<open>to_dict\<close> returns, every column of the row whose value is a
  \<^verbatim>\<open>Decimal\<close> \<open>d\<close> is, under the same key of the result, the float that \<^verbatim>\<open>float(d)\<close>
  returns.
\<close>

theorem to_dict_decimal:
  assumes "to_dict rt record = Inr out" and "get (dict record) k = Some (PObj (Decimal d))"
  shows "\<exists>f. float_of_decimal rt d = Inr f \<and> get out k = Some (PFloat f)"
  using to_dict_get [OF assms] by (auto simp: convert_obj convert_def split: sum.splits)

theorem to_dict_decimal_witness:
  "to_dict example_builtins example_row = Inr example_out \<and>
   get (dict example_row) ''amount'' = Some (PObj (Decimal (Dec False 1999 (- 2)))) \<and>
   float_of_decimal example_builtins (Dec False 1999 (- 2)) =
     Inr (Finite False 5626684784446013 (- 48)) \<and>
   get example_out ''amount'' = Some (PFloat (Finite False 5626684784446013 (- 48)))"
proof -
  have g: "get (dict example_row) ''amount'' = Some (PObj (Decimal (Dec False 1999 (- 2))))"
    by (simp add: example_dict)
  have f: "float_of_decimal example_builtins (Dec False 1999 (- 2)) =
      Inr (Finite False 5626684784446013 (- 48))"
    by (simp add: example_builtins_def)
  from to_dict_decimal [OF example_to_dict g] obtain x where
    "float_of_decimal example_builtins (Dec False 1999 (- 2)) = Inr x"
    and "get example_out ''amount'' = Some (PFloat x)"
    by blast
  with f have "get example_out ''amount'' = Some (PFloat (Finite False 5626684784446013 (- 48)))"
    by simp
  with example_to_dict g f show ?thesis
    by blast
qed

text \<open>
  C4. When \<^verbatim>\<open>to_dict\<close> returns, the result has the keys of the row, in the same
  order: the column names. A value that is \<^verbatim>\<open>None\<close>, a boolean, a number or a string is
  the same in the result, and an object of any type other than \<^verbatim>\<open>datetime\<close>, \<^verbatim>\<open>date\<close>
  and \<^verbatim>\<open>Decimal\<close> that JSON cannot represent is replaced by \<^verbatim>\<open>str\<close> of it.
\<close>

theorem to_dict_keys_values:
  assumes "to_dict rt record = Inr out"
  shows "keys out = keys (dict record) \<and> set (keys out) = KStr ` fst ` set record \<and>
         (\<forall>k v. get (dict record) k = Some v \<and> scalar v \<longrightarrow> get out k = Some v) \<and>
         (\<forall>k s. get (dict record) k = Some (PObj (Other s)) \<longrightarrow> get out k = Some (PStr s))"
proof -
  from to_dict_items [OF assms] obtain d d' where d: "dict record = PDict d" "out = PDict d'"
      "fst ` set d = KStr ` fst ` set record"
    and rel: "list_all2 (\<lambda>kv kv'. fst kv' = fst kv \<and> convert rt (snd kv) = Inr (snd kv')) d d'"
    by blast
  from list_all2_keys [OF rel] d have "keys out = keys (dict record)"
    and "set (keys out) = KStr ` fst ` set record"
    by simp_all
  moreover have "get out k = Some v" if "get (dict record) k = Some v \<and> scalar v" for k v
    using to_dict_get [OF assms, of k v] that by (auto simp: convert_scalar)
  moreover have "get out k = Some (PStr s)" if "get (dict record) k = Some (PObj (Other s))" for k s
    using to_dict_get [OF assms that] by (auto simp: convert_obj convert_def)
  ultimately show ?thesis
    by blast
qed

theorem to_dict_keys_values_witness:
  "to_dict example_builtins example_row = Inr example_out \<and>
   keys example_out = keys (dict example_row) \<and>
   get example_out ''id'' = Some (PInt 1) \<and>
   get example_out ''note'' = Some PNone \<and>
   get example_out ''at'' = Some (PStr ''01:02:03'')"
proof -
  note th = to_dict_keys_values [OF example_to_dict]
  have g1: "get (dict example_row) ''id'' = Some (PInt 1) \<and> scalar (PInt 1)"
    by (simp add: example_dict)
  have g2: "get (dict example_row) ''note'' = Some PNone \<and> scalar PNone"
    by (simp add: example_dict)
  have g3: "get (dict example_row) ''at'' = Some (PObj (Other ''01:02:03''))"
    by (simp add: example_dict)
  from th have "keys example_out = keys (dict example_row)"
    by blast
  moreover from th g1 have "get example_out ''id'' = Some (PInt 1)"
    by blast
  moreover from th g2 have "get example_out ''note'' = Some PNone"
    by blast
  moreover from th g3 have "get example_out ''at'' = Some (PStr ''01:02:03'')"
    by blast
  ultimately show ?thesis
    using example_to_dict by blast
qed

text \<open>
  C10. The serializer is idempotent: applied to a dictionary it has returned, it returns
  that dictionary again.
\<close>

theorem to_dict_idempotent:
  assumes "to_dict rt record = Inr out"
  shows "to_dict rt (as_row out) = Inr out"
proof -
  from assms obtain j where out: "out = decode j"
    by (auto simp: to_dict_def split: sum.splits)
  then have nat: "native out"
    by (simp add: native_decode)
  from to_dict_items [OF assms] obtain d where d: "out = PDict d"
    by blast
  with nat have "distinct (map fst d)" and "list_all (\<lambda>kv. str_key (fst kv)) d"
    by (simp_all add: list_all_iff)
  then have "dict (as_row out) = out"
    by (simp add: d dict_def as_row_str_keys dict_of_distinct del: as_row.simps)
  with convert_native [OF nat, of rt] show ?thesis
    by (simp add: to_dict_def convert_def)
qed

theorem to_dict_idempotent_witness:
  "to_dict example_builtins example_row = Inr example_out \<and>
   to_dict example_builtins (as_row example_out) = Inr example_out"
  using to_dict_idempotent [OF example_to_dict] example_to_dict by blast

text \<open>
  C5. When \<^verbatim>\<open>run\<close> returns, the list in its value is the list of rows the query
  returned with \<^verbatim>\<open>to_dict\<close> applied to each row by itself: the entry at every position
  is the conversion of the row at that position, so the rows keep their order.
\<close>

theorem run_maps_to_dict:
  assumes "db self = Some c"
    and "db_fetch drv c (query self) (timeout self) = (Inr rows, c')"
    and "fst (run drv rt self payload) = Inr res"
  shows "\<exists>rs. val res = PDict [(KStr ''result'', PList rs)] \<and>
           map (to_dict rt) rows = map Inr rs \<and>
           length rs = length rows \<and>
           (\<forall>i < length rows. to_dict rt (rows ! i) = Inr (rs ! i))"
proof -
  from assms(3) obtain rs where rs: "traverse (to_dict rt) rows = Inr rs"
    and res: "res = \<lparr>port = ''result'', val = PDict [(KStr ''result'', PList rs)]\<rparr>"
    by (auto simp: run_fetched [OF assms(1,2)] split: sum.splits)
  from rs have rel: "list_all2 (\<lambda>record r. to_dict rt record = Inr r) rows rs"
    by (simp add: traverse_list_all2)
  then have "map (to_dict rt) rows = map Inr rs"
    by (induction rule: list_all2_induct) simp_all
  moreover from rel have "length rs = length rows"
    and "\<forall>i < length rows. to_dict rt (rows ! i) = Inr (rs ! i)"
    by (simp_all add: list_all2_conv_all_nth)
  ultimately show ?thesis
    using res by simp
qed

theorem run_maps_to_dict_witness:
  "db example_action = Some Opened \<and>
   db_fetch (example_driver [example_date_row, example_row]) Opened (query example_action)
       (timeout example_action) =
     (Inr [example_date_row, example_row], Opened) \<and>
   fst (run (example_driver [example_date_row, example_row]) example_builtins example_action PNone) =
     Inr \<lparr>port = ''result'',
          val = PDict [(KStr ''result'',
                        PList [PDict [(KStr ''born'', PStr ''1987-06-05'')], example_out])]\<rparr>"
proof -
  let ?rows = "[example_date_row, example_row]"
  let ?res = "\<lparr>port = ''result'',
          val = PDict [(KStr ''result'',
                        PList [PDict [(KStr ''born'', PStr ''1987-06-05'')], example_out])]\<rparr>"
  have a: "db example_action = Some Opened"
    by (simp add: example_action_def)
  have b: "db_fetch (example_driver ?rows) Opened (query example_action) (timeout example_action) =
      (Inr ?rows, Opened)"
    by (simp add: example_driver_def)
  have c: "fst (run (example_driver ?rows) example_builtins example_action PNone) = Inr ?res"
    by (simp add: run_fetched [OF a b] example_date_to_dict example_to_dict)
  from run_maps_to_dict [OF a b c] have "\<exists>rs. val ?res = PDict [(KStr ''result'', PList rs)] \<and>
      map (to_dict example_builtins) ?rows = map Inr rs"
    by blast
  with a b c show ?thesis
    by blast
qed

text \<open>
  C6. Initialization is to resolve the credentials, open the connection and store the
  query and the timeout, and to fail when either step fails. The source awaits the
  connection inside \<^verbatim>\<open>__init__\<close>, which is declared with a plain \<^verbatim>\<open>def\<close>: the
  module raises \<^verbatim>\<open>SyntaxError\<close> when it is imported, so for every configuration,
  storage and driver \<^verbatim>\<open>build\<close> ends in that error and no connection is opened.
\<close>

theorem build_syntax_error: "build drv load get_credentials config = Inl SyntaxError"
  by (simp add: build_def import_plugin_fails)


text \<open>
  C7. \<^verbatim>\<open>close\<close> does nothing and succeeds when the action holds no connection.
  Otherwise it calls the driver's \<^verbatim>\<open>close\<close> on the connection and returns what that call
  returns, an exception included; the action keeps the connection object. When the
  driver's \<^verbatim>\<open>close\<close> succeeds and changes nothing on a connection it has closed, a second
  \<^verbatim>\<open>close\<close> of the action succeeds and changes nothing.
\<close>

theorem close_delegates:
  "(db self = None \<longrightarrow> close drv self = (Inr (), self)) \<and>
   (\<forall>c. db self = Some c \<longrightarrow>
      close drv self = (fst (db_close drv c), self\<lparr>db := Some (snd (db_close drv c))\<rparr>)) \<and>
   ((\<forall>c. db_close drv (snd (db_close drv c)) = (Inr (), snd (db_close drv c))) \<longrightarrow>
      close drv (snd (close drv self)) = (Inr (), snd (close drv self)))"
proof (intro conjI allI impI)
  assume "db self = None"
  then show "close drv self = (Inr (), self)"
    by (simp add: close_def)
next
  fix c
  assume "db self = Some c"
  then show "close drv self = (fst (db_close drv c), self\<lparr>db := Some (snd (db_close drv c))\<rparr>)"
    by (simp add: close_def split: prod.splits)
next
  assume idem: "\<forall>c. db_close drv (snd (db_close drv c)) = (Inr (), snd (db_close drv c))"
  show "close drv (snd (close drv self)) = (Inr (), snd (close drv self))"
  proof (cases "db self")
    case None
    then show ?thesis
      by (simp add: close_def)
  next
    case (Some c)
    obtain r c' where first: "db_close drv c = (r, c')"
      by (cases "db_close drv c")
    with idem [rule_format, of c] have again: "db_close drv c' = (Inr (), c')"
      by simp
    from Some first have "close drv self = (r, self\<lparr>db := Some c'\<rparr>)"
      by (simp add: close_def)
    with again show ?thesis
      by (simp add: close_def)
  qed
qed

theorem close_delegates_witness:
  "close (example_driver []) example_action = (Inr (), example_action\<lparr>db := Some Closed\<rparr>) \<and>
   close (example_driver []) (example_action\<lparr>db := Some Closed\<rparr>) =
     (Inr (), example_action\<lparr>db := Some Closed\<rparr>) \<and>
   close (example_driver []) (example_action\<lparr>db := None\<rparr>) = (Inr (), example_action\<lparr>db := None\<rparr>)"
proof -
  let ?drv = "example_driver [] :: conn_state driver"
  have idem: "\<forall>c. db_close ?drv (snd (db_close ?drv c)) = (Inr (), snd (db_close ?drv c))"
    by (simp add: example_driver_def)
  have o: "db example_action = Some Opened"
    by (simp add: example_action_def)
  have n: "db (example_action\<lparr>db := None\<rparr>) = None"
    by simp
  from close_delegates [of example_action ?drv] o
  have first: "close ?drv example_action = (Inr (), example_action\<lparr>db := Some Closed\<rparr>)"
    by (simp add: example_driver_def)
  from close_delegates [of example_action ?drv] idem
  have "close ?drv (snd (close ?drv example_action)) = (Inr (), snd (close ?drv example_action))"
    by blast
  with first have "close ?drv (example_action\<lparr>db := Some Closed\<rparr>) =
      (Inr (), example_action\<lparr>db := Some Closed\<rparr>)"
    by simp
  moreover from close_delegates [of "example_action\<lparr>db := None\<rparr>" ?drv] n
  have "close ?drv (example_action\<lparr>db := None\<rparr>) = (Inr (), example_action\<lparr>db := None\<rparr>)"
    by blast
  ultimately show ?thesis
    using first by blast
qed

text \<open>
  With a driver that times out on the query and then fails to close the open
  connection, \<^verbatim>\<open>close\<close> after the timeout raises.
\<close>

theorem close_raises:
  "fst (run reset_driver example_builtins example_action PNone) = Inl TimeoutError \<and>
   fst (close reset_driver (snd (run reset_driver example_builtins example_action PNone))) =
     Inl OSError \<and>
   fst (close reset_driver example_action) \<noteq> Inr ()"
  by (simp add: run_def close_def reset_driver_def example_action_def)

end
